theory Spec2Isabelle
  imports Complex_Main
begin

section \<open>Quality control and fusion of triplicate rain gauges\<close>

text \<open>
  A shallow embedding of \<^verbatim>\<open>gauge_proc_tools.py\<close>. The program works on pandas
  data frames of 64-bit floats. The embedding keeps the special values of the floats
  (NaN and the two infinities) and the way comparisons and arithmetic treat them, and
  idealises the finite values as real numbers: no rounding error, no overflow, and a
  zero without sign (a division of a non-zero value by zero takes the zero as positive,
  which is the zero that \<open>x + (- x)\<close> produces). The WMO correction, whose claim is
  about the order of its results, is modelled with the rounding of the doubles.
\<close>

subsection \<open>Floats\<close>

datatype fl = NaN | NInf | Fin real | PInf

fun fl_neg :: "fl \<Rightarrow> fl" where
  "fl_neg NaN = NaN"
| "fl_neg NInf = PInf"
| "fl_neg PInf = NInf"
| "fl_neg (Fin x) = Fin (- x)"

fun fl_add :: "fl \<Rightarrow> fl \<Rightarrow> fl" where
  "fl_add (Fin x) (Fin y) = Fin (x + y)"
| "fl_add NaN _ = NaN"
| "fl_add _ NaN = NaN"
| "fl_add PInf NInf = NaN"
| "fl_add NInf PInf = NaN"
| "fl_add PInf _ = PInf"
| "fl_add _ PInf = PInf"
| "fl_add NInf _ = NInf"
| "fl_add _ NInf = NInf"

definition fl_sub :: "fl \<Rightarrow> fl \<Rightarrow> fl" where
  "fl_sub a b = fl_add a (fl_neg b)"

fun fl_mul :: "fl \<Rightarrow> fl \<Rightarrow> fl" where
  "fl_mul (Fin x) (Fin y) = Fin (x * y)"
| "fl_mul NaN _ = NaN"
| "fl_mul _ NaN = NaN"
| "fl_mul (Fin x) i = (if x = 0 then NaN else if 0 < x then i else fl_neg i)"
| "fl_mul i (Fin y) = (if y = 0 then NaN else if 0 < y then i else fl_neg i)"
| "fl_mul PInf i = i"
| "fl_mul NInf i = fl_neg i"

fun fl_div :: "fl \<Rightarrow> fl \<Rightarrow> fl" where
  "fl_div (Fin x) (Fin y) =
     (if y = 0 then (if x = 0 then NaN else if 0 < x then PInf else NInf)
      else Fin (x / y))"
| "fl_div NaN _ = NaN"
| "fl_div _ NaN = NaN"
| "fl_div (Fin x) _ = Fin 0"
| "fl_div i (Fin y) = (if 0 \<le> y then i else fl_neg i)"
| "fl_div _ _ = NaN"

text \<open>Comparisons: every comparison with NaN is false.\<close>

fun fl_lt :: "fl \<Rightarrow> fl \<Rightarrow> bool" where
  "fl_lt (Fin x) (Fin y) = (x < y)"
| "fl_lt NaN _ = False"
| "fl_lt _ NaN = False"
| "fl_lt _ NInf = False"
| "fl_lt NInf _ = True"
| "fl_lt PInf _ = False"
| "fl_lt _ PInf = True"

definition fl_gt :: "fl \<Rightarrow> fl \<Rightarrow> bool" where
  "fl_gt a b = fl_lt b a"

definition fl_eq :: "fl \<Rightarrow> fl \<Rightarrow> bool" where
  "fl_eq a b = (a \<noteq> NaN \<and> b \<noteq> NaN \<and> a = b)"

definition fl_ge :: "fl \<Rightarrow> fl \<Rightarrow> bool" where
  "fl_ge a b = (fl_lt b a \<or> fl_eq a b)"

text \<open>
  \<^verbatim>\<open>round(10)\<close> is numpy's: scale by \<open>10 ^ 10\<close>, round to the nearest integer
  with ties to the even one, scale back. NaN and the infinities stay.
\<close>

definition rint :: "real \<Rightarrow> int" where
  "rint x =
     (let f = \<lfloor>x\<rfloor>; d = x - of_int f
      in if d < 1 / 2 then f else if 1 / 2 < d then f + 1
         else if even f then f else f + 1)"

fun fl_round :: "nat \<Rightarrow> fl \<Rightarrow> fl" where
  "fl_round decimals (Fin x) = Fin (of_int (rint (x * 10 ^ decimals)) / 10 ^ decimals)"
| "fl_round decimals v = v"

subsection \<open>Series and frames\<close>

text \<open>
  A series is the list of its values in index order. A frame is the list of its rows,
  a row giving a value to every column key: the columns of a frame share one index, so
  they have one length. The three-gauge frames have the columns \<^verbatim>\<open>"1"\<close>,
  \<^verbatim>\<open>"2"\<close>, \<^verbatim>\<open>"3"\<close>, the pair frames the columns \<^verbatim>\<open>"1-2"\<close>,
  \<^verbatim>\<open>"1-3"\<close>, \<^verbatim>\<open>"2-3"\<close>.
\<close>

datatype gauge = G1 | G2 | G3

datatype pair = P12 | P13 | P23

type_synonym 'a series = "'a list"

type_synonym ('k, 'a) frame = "('k \<Rightarrow> 'a) list"

fun gauge_label :: "gauge \<Rightarrow> string" where
  "gauge_label G1 = ''1''"
| "gauge_label G2 = ''2''"
| "gauge_label G3 = ''3''"

fun pair_label :: "pair \<Rightarrow> string" where
  "pair_label P12 = ''1-2''"
| "pair_label P13 = ''1-3''"
| "pair_label P23 = ''2-3''"

definition gauge_ids :: "gauge list" where
  "gauge_ids = [G1, G2, G3]"

text \<open>The table \<^verbatim>\<open>pairs\<close>: the two pairs of each gauge, and all of them.\<close>

fun pairs :: "gauge \<Rightarrow> pair \<times> pair" where
  "pairs G1 = (P12, P13)"
| "pairs G2 = (P12, P23)"
| "pairs G3 = (P13, P23)"

definition pairs_all :: "pair list" where
  "pairs_all = [P12, P13, P23]"

text \<open>\<^verbatim>\<open>id_1, id_2 = pair_str.split("-")\<close>\<close>

fun split_pair :: "pair \<Rightarrow> gauge \<times> gauge" where
  "split_pair P12 = (G1, G2)"
| "split_pair P13 = (G1, G3)"
| "split_pair P23 = (G2, G3)"

text \<open>A row of a three-column frame, written out.\<close>

definition row3 :: "'a \<Rightarrow> 'a \<Rightarrow> 'a \<Rightarrow> gauge \<Rightarrow> 'a" where
  "row3 a b c g = (case g of G1 \<Rightarrow> a | G2 \<Rightarrow> b | G3 \<Rightarrow> c)"

text \<open>\<^verbatim>\<open>df[key]\<close>: the column of a frame.\<close>

definition col :: "('k, 'a) frame \<Rightarrow> 'k \<Rightarrow> 'a series" where
  "col df k = map (\<lambda>r. r k) df"

text \<open>
  \<^verbatim>\<open>out = pd.DataFrame(index=df.index); for key in keys: out[key] = body\<close>:
  the frame over an index of \<open>n\<close> entries whose column \<open>k\<close> is the series \<open>body k\<close>.
  The iterations of these loops do not depend on each other.
\<close>

definition from_columns :: "nat \<Rightarrow> ('k \<Rightarrow> 'a series) \<Rightarrow> ('k, 'a) frame" where
  "from_columns n body = map (\<lambda>t k. body k ! t) [0..<n]"

text \<open>Elementwise operations of series.\<close>

definition series_eq :: "fl series \<Rightarrow> fl \<Rightarrow> bool series" where
  "series_eq s v = map (\<lambda>x. fl_eq x v) s"

definition series_gt :: "fl series \<Rightarrow> fl \<Rightarrow> bool series" where
  "series_gt s v = map (\<lambda>x. fl_gt x v) s"

definition series_lt :: "fl series \<Rightarrow> fl \<Rightarrow> bool series" where
  "series_lt s v = map (\<lambda>x. fl_lt x v) s"

definition series_ge :: "fl series \<Rightarrow> fl \<Rightarrow> bool series" where
  "series_ge s v = map (\<lambda>x. fl_ge x v) s"

definition series_and :: "bool series \<Rightarrow> bool series \<Rightarrow> bool series" where
  "series_and a b = map2 (\<and>) a b"

definition series_or :: "bool series \<Rightarrow> bool series \<Rightarrow> bool series" where
  "series_or a b = map2 (\<or>) a b"

definition series_not :: "bool series \<Rightarrow> bool series" where
  "series_not a = map Not a"

definition series_add :: "fl series \<Rightarrow> fl series \<Rightarrow> fl series" where
  "series_add a b = map2 fl_add a b"

definition series_sub :: "fl series \<Rightarrow> fl series \<Rightarrow> fl series" where
  "series_sub a b = map2 fl_sub a b"

definition series_div :: "fl series \<Rightarrow> fl series \<Rightarrow> fl series" where
  "series_div a b = map2 fl_div a b"

definition series_div_scalar :: "fl series \<Rightarrow> fl \<Rightarrow> fl series" where
  "series_div_scalar a v = map (\<lambda>x. fl_div x v) a"

definition series_mul_scalar :: "fl series \<Rightarrow> fl \<Rightarrow> fl series" where
  "series_mul_scalar a v = map (\<lambda>x. fl_mul x v) a"

text \<open>\<^verbatim>\<open>s[mask] = v\<close>: the series with \<open>v\<close> where the mask holds.\<close>

definition series_set_where :: "'a series \<Rightarrow> bool series \<Rightarrow> 'a \<Rightarrow> 'a series" where
  "series_set_where s msk v = map2 (\<lambda>x m. if m then v else x) s msk"

text \<open>\<^verbatim>\<open>df.round(10)\<close>, \<^verbatim>\<open>(df > v).any(axis=1)\<close> on a three-gauge frame.\<close>

definition frame_round :: "nat \<Rightarrow> (gauge, fl) frame \<Rightarrow> (gauge, fl) frame" where
  "frame_round decimals df = map (\<lambda>r g. fl_round decimals (r g)) df"

definition frame_gt :: "(gauge, fl) frame \<Rightarrow> fl \<Rightarrow> (gauge, bool) frame" where
  "frame_gt df v = map (\<lambda>r g. fl_gt (r g) v) df"

definition any_axis1 :: "(gauge, bool) frame \<Rightarrow> bool series" where
  "any_axis1 df = map (\<lambda>r. list_ex r gauge_ids) df"

subsection \<open>The detectors\<close>

text \<open>
  \<^verbatim>\<open>list(set(gauge_ids) - set(gauge_id))\<close>: the two other gauges. Python fixes no
  order for them; the detector below uses them under a symmetric \<^verbatim>\<open>|\<close>.
\<close>

definition other_gauge_ids :: "gauge \<Rightarrow> gauge list" where
  "other_gauge_ids gauge_id = filter (\<lambda>g. g \<noteq> gauge_id) gauge_ids"

definition validity_from_zeros :: "(gauge, fl) frame \<Rightarrow> fl \<Rightarrow> (gauge, bool) frame" where
  "validity_from_zeros df min_R =
     (let df_three_gauges = frame_round 10 df
      in from_columns (length df) (\<lambda>gauge_id.
           let other = other_gauge_ids gauge_id;
               df_not_valid =
                 series_and (series_eq (col df_three_gauges gauge_id) (Fin 0))
                   (series_or (series_gt (col df_three_gauges (other ! 0)) min_R)
                              (series_gt (col df_three_gauges (other ! 1)) min_R))
           in series_not df_not_valid))"

definition get_gauge_diff :: "(gauge, fl) frame \<Rightarrow> (pair, fl) frame" where
  "get_gauge_diff df =
     (let df_three_gauges = frame_round 10 df
      in from_columns (length df) (\<lambda>pair_str.
           let (id_1, id_2) = split_pair pair_str
           in series_sub (col df_three_gauges id_1) (col df_three_gauges id_2)))"

text \<open>
  The two masked assignments \<^verbatim>\<open>df_relative_diff[pair_str][mask] = np.nan\<close> write
  through to the column, as they do in the pandas the program was written for.
\<close>

definition get_gauge_relative_diff :: "(gauge, fl) frame \<Rightarrow> fl \<Rightarrow> (pair, fl) frame" where
  "get_gauge_relative_diff df min_R =
     (let df_diff = get_gauge_diff df
      in from_columns (length df) (\<lambda>pair_str.
           let (id_1, id_2) = split_pair pair_str;
               c = series_div (col df_diff pair_str)
                     (series_div_scalar (series_add (col df id_1) (col df id_2)) (Fin 2));
               c = series_set_where c (series_lt (col df id_1) min_R) NaN;
               c = series_set_where c (series_lt (col df id_2) min_R) NaN
           in c))"

text \<open>\<^verbatim>\<open>pair[0] == gauge_id\<close>: the first character of the pair string is the gauge's.\<close>

definition pair_sign :: "pair \<Rightarrow> gauge \<Rightarrow> real" where
  "pair_sign pair_str gauge_id =
     (if take 1 (pair_label pair_str) = gauge_label gauge_id then - 1 else 1)"

definition validity_from_relative_diff ::
  "(gauge, fl) frame \<Rightarrow> fl \<Rightarrow> fl \<Rightarrow> (gauge, bool) frame" where
  "validity_from_relative_diff df max_allowed_relative_diff min_R =
     from_columns (length df) (\<lambda>gauge_id.
       let (pair_1, pair_2) = pairs gauge_id;
           sign_1 = pair_sign pair_1 gauge_id;
           sign_2 = pair_sign pair_2 gauge_id;
           df_greater_min_R = any_axis1 (frame_gt df min_R);
           df_relative_diff_three_gauges = get_gauge_relative_diff df min_R;
           df_not_valid =
             series_and df_greater_min_R
               (series_or
                  (series_gt
                     (series_mul_scalar (col df_relative_diff_three_gauges pair_1) (Fin sign_1))
                     max_allowed_relative_diff)
                  (series_gt
                     (series_mul_scalar (col df_relative_diff_three_gauges pair_2) (Fin sign_2))
                     max_allowed_relative_diff))
       in series_not df_not_valid)"


subsection \<open>The correlation detector\<close>

text \<open>
  \<^verbatim>\<open>df.rolling(window=w, center=True).corr()\<close> is the library's: it is a
  parameter \<open>rolling_corr\<close>, giving at every index entry the matrix of the pairwise
  correlations. \<^verbatim>\<open>correls.xs(key=id_1, axis=0, level=1).xs(key=id_2, axis=1)\<close>
  is the series of the entries \<open>(id_1, id_2)\<close> of the matrices. The masked
  assignment writes through, as in \<open>get_gauge_relative_diff\<close>.
\<close>

definition gauge_corr ::
  "((gauge, fl) frame \<Rightarrow> int \<Rightarrow> (gauge \<Rightarrow> gauge \<Rightarrow> fl) list) \<Rightarrow>
   (gauge, fl) frame \<Rightarrow> int \<Rightarrow> (pair, fl) frame" where
  "gauge_corr rolling_corr df corr_window_length =
     (let correls = rolling_corr df corr_window_length
      in from_columns (length correls) (\<lambda>pair_str.
           let (id_1, id_2) = split_pair pair_str;
               c = map (\<lambda>m. m id_1 id_2) correls
           in series_set_where c (series_gt c (Fin 1)) (Fin 0)))"

definition validity_from_corr :: "(pair, fl) frame \<Rightarrow> fl \<Rightarrow> (gauge, bool) frame" where
  "validity_from_corr df_corr_three_pairs min_corr =
     from_columns (length df_corr_three_pairs) (\<lambda>gauge_id.
       let df_corr_1 = col df_corr_three_pairs (fst (pairs gauge_id));
           df_corr_2 = col df_corr_three_pairs (snd (pairs gauge_id))
       in series_or (series_ge df_corr_1 min_corr) (series_ge df_corr_2 min_corr))"

subsection \<open>Rolling means\<close>

text \<open>
  \<^verbatim>\<open>df.rolling(window=w, center=True).mean()\<close>, after pandas: a negative window is
  refused; the window of the index entry \<open>i\<close> ends (exclusively) at
  \<open>i + 1 + (w - 1) // 2\<close> and starts \<open>w\<close> entries before, both clipped to the
  series; an infinite value counts as a missing one; the mean is that of the
  observations present when there are at least \<open>min_periods = w\<close> of them and at
  least one, and NaN otherwise.
\<close>

datatype error = ValueError | ZeroDivisionError

definition window_bounds :: "nat \<Rightarrow> nat \<Rightarrow> nat \<Rightarrow> nat \<times> nat" where
  "window_bounds window n i =
     (let offset = (int window - 1) div 2;
          stop = int i + 1 + offset;
          start = stop - int window
      in (nat (max 0 (min (int n) start)), nat (max 0 (min (int n) stop))))"

fun observations :: "fl list \<Rightarrow> real list" where
  "observations [] = []"
| "observations (Fin x # vs) = x # observations vs"
| "observations (_ # vs) = observations vs"

definition roll_mean_at :: "nat \<Rightarrow> fl series \<Rightarrow> nat \<Rightarrow> fl" where
  "roll_mean_at window s i =
     (let (start, stop) = window_bounds window (length s) i;
          obs = observations (take (stop - start) (drop start s));
          nobs = length obs
      in if window \<le> nobs \<and> 0 < nobs then Fin (sum_list obs / real nobs) else NaN)"

definition rolling_mean_frame :: "(gauge, fl) frame \<Rightarrow> nat \<Rightarrow> (gauge, fl) frame" where
  "rolling_mean_frame df window =
     from_columns (length df) (\<lambda>g. map (roll_mean_at window (col df g)) [0..<length df])"

definition rolling_mean :: "(gauge, fl) frame \<Rightarrow> int \<Rightarrow> error + (gauge, fl) frame" where
  "rolling_mean df window =
     (if window < 0 then Inl ValueError else Inr (rolling_mean_frame df (nat window)))"

subsection \<open>The combination\<close>

text \<open>\<^verbatim>\<open>min_R / hours\<close> of a Python float by a Python int.\<close>

definition py_truediv :: "fl \<Rightarrow> int \<Rightarrow> error + fl" where
  "py_truediv x k = (if k = 0 then Inl ZeroDivisionError else Inr (fl_div x (Fin (of_int k))))"

text \<open>\<^verbatim>\<open>a & b\<close> and \<^verbatim>\<open>df[mask]\<close> of frames over one index.\<close>

definition frame_and :: "(gauge, bool) frame \<Rightarrow> (gauge, bool) frame \<Rightarrow> (gauge, bool) frame" where
  "frame_and a b = map2 (\<lambda>r s g. r g \<and> s g) a b"

definition frame_where :: "(gauge, fl) frame \<Rightarrow> (gauge, bool) frame \<Rightarrow> (gauge, fl) frame" where
  "frame_where df msk = map2 (\<lambda>r m g. if m g then r g else NaN) df msk"

text \<open>
  \<^verbatim>\<open>.mean(axis=1)\<close> skips the NaN of a row (\<^verbatim>\<open>skipna\<close> is on by default): the sum
  of the other values by their number, and NaN for a row of NaN only.
\<close>

definition fl_sum :: "fl list \<Rightarrow> fl" where
  "fl_sum vs = fold (\<lambda>x acc. fl_add acc x) vs (Fin 0)"

definition nanmean :: "fl list \<Rightarrow> fl" where
  "nanmean vs =
     (let xs = filter (\<lambda>v. v \<noteq> NaN) vs
      in if xs = [] then NaN else fl_div (fl_sum xs) (Fin (real (length xs))))"

definition mean_axis1 :: "(gauge, fl) frame \<Rightarrow> fl series" where
  "mean_axis1 df = map (\<lambda>r. nanmean (map r gauge_ids)) df"

text \<open>
  Lines 61 to 81 of \<open>combine_gauges\<close>: the value of \<^verbatim>\<open>df_valid_combo\<close>, or the
  exception raised on the way.
\<close>

definition valid_combo ::
  "(gauge, fl) frame \<Rightarrow> int \<Rightarrow> fl \<Rightarrow> fl \<Rightarrow> int \<Rightarrow> error + (gauge, bool) frame" where
  "valid_combo df hours_to_average_for_diff max_allowed_relative_diff min_R
       hours_to_average_for_zeros =
     (case rolling_mean df (60 * hours_to_average_for_diff) of
        Inl e \<Rightarrow> Inl e
      | Inr df_temp_diff \<Rightarrow>
     (case py_truediv min_R hours_to_average_for_diff of
        Inl e \<Rightarrow> Inl e
      | Inr min_R_diff \<Rightarrow>
     (let df_gauge_valid_from_diff =
            validity_from_relative_diff df_temp_diff max_allowed_relative_diff min_R_diff
      in
     (case rolling_mean df (60 * hours_to_average_for_zeros) of
        Inl e \<Rightarrow> Inl e
      | Inr df_temp_zeros \<Rightarrow>
     (case py_truediv min_R hours_to_average_for_zeros of
        Inl e \<Rightarrow> Inl e
      | Inr min_R_zeros \<Rightarrow>
     (let df_gauge_valid_from_zeros = validity_from_zeros df_temp_zeros min_R_zeros
      in Inr (frame_and df_gauge_valid_from_zeros df_gauge_valid_from_diff)))))))"

definition combine_gauges ::
  "(gauge, fl) frame \<Rightarrow> int \<Rightarrow> fl \<Rightarrow> fl \<Rightarrow> int \<Rightarrow> error + fl series" where
  "combine_gauges df hours_to_average_for_diff max_allowed_relative_diff min_R
       hours_to_average_for_zeros =
     (case valid_combo df hours_to_average_for_diff max_allowed_relative_diff min_R
             hours_to_average_for_zeros of
        Inl e \<Rightarrow> Inl e
      | Inr df_valid_combo \<Rightarrow> Inr (mean_axis1 (frame_where df df_valid_combo)))"

subsection \<open>The WMO correction\<close>

text \<open>
  \<^verbatim>\<open>(R_raw / 1.16) ** (1 / 0.92)\<close> on an array of doubles. Here the rounding of
  the doubles is part of the model: \<open>double_round\<close> rounds a real to the nearest
  double (a significand of 53 bits, ties to the even one, subnormal numbers below
  \<open>2 ^ -1022\<close>), and a division of doubles is the exact quotient rounded, infinite
  from \<open>2 ^ 1024\<close> on. The literals \<^verbatim>\<open>1.16\<close> and \<^verbatim>\<open>0.92\<close> are the doubles
  nearest to them, and \<^verbatim>\<open>1 / 0.92\<close> is a division of doubles.
\<close>

definition double_exponent :: "real \<Rightarrow> int" where
  "double_exponent r = max \<lfloor>log 2 \<bar>r\<bar>\<rfloor> (- 1022)"

definition double_round :: "real \<Rightarrow> real" where
  "double_round r =
     (if r = 0 then 0
      else of_int (rint (r * 2 powr of_int (52 - double_exponent r))) *
           2 powr of_int (double_exponent r - 52))"

definition double_overflow :: real where
  "double_overflow = 2 ^ 1024"

fun fl_round64 :: "fl \<Rightarrow> fl" where
  "fl_round64 (Fin q) =
     (let v = double_round q
      in if double_overflow \<le> v then PInf
         else if v \<le> - double_overflow then NInf else Fin v)"
| "fl_round64 v = v"








subsection \<open>Notions of the specification\<close>

text \<open>
  The arithmetic mean of a list of floats, with the NaN propagation of float
  arithmetic; the mean of no value is undefined (NaN).
\<close>

definition arithmetic_mean :: "fl list \<Rightarrow> fl" where
  "arithmetic_mean vs = (if vs = [] then NaN else fl_div (fl_sum vs) (Fin (real (length vs))))"

text \<open>
  The index entry \<open>t\<close> of a series of \<open>n\<close> entries is so close to the start or to
  the end that the centred window of \<open>60 * hours\<close> entries, which reaches from
  \<open>t - 30 * hours\<close> to \<open>t + 30 * hours - 1\<close>, is not all inside the series.
\<close>

definition window_incomplete :: "int \<Rightarrow> nat \<Rightarrow> nat \<Rightarrow> bool" where
  "window_incomplete hours n t = (int t < 30 * hours \<or> int n < int t + 30 * hours)"

text \<open>
  The combined series as the specification words it: at every index entry the
  arithmetic mean of the raw values of the gauges whose validity entry is true, and
  undefined (NaN) where no gauge is valid.
\<close>

definition spec_combined_series :: "(gauge, fl) frame \<Rightarrow> (gauge, bool) frame \<Rightarrow> fl series" where
  "spec_combined_series df validity =
     map2 (\<lambda>r v. arithmetic_mean (map r (filter v gauge_ids))) df validity"

section \<open>Facts of the model\<close>

subsection \<open>Series and frames, entry by entry\<close>

text \<open>
  The key lists of the program are all the keys of their types, so a loop over
  \<^verbatim>\<open>gauge_ids\<close> or over \<^verbatim>\<open>pairs["all"]\<close> fills every column of its frame; and
  \<open>split_pair\<close> is the split of the pair string at its dash.
\<close>

lemma gauge_ids_complete: "set gauge_ids = UNIV" "distinct gauge_ids"
proof -
  have "g \<in> set gauge_ids" for g
    by (cases g) (simp_all add: gauge_ids_def)
  then show "set gauge_ids = UNIV" by blast
  show "distinct gauge_ids" by (simp add: gauge_ids_def)
qed

lemma pairs_all_complete: "set pairs_all = UNIV" "distinct pairs_all"
proof -
  have "p \<in> set pairs_all" for p
    by (cases p) (simp_all add: pairs_all_def)
  then show "set pairs_all = UNIV" by blast
  show "distinct pairs_all" by (simp add: pairs_all_def)
qed

lemma pair_label_split:
  "pair_label p = gauge_label (fst (split_pair p)) @ ''-'' @ gauge_label (snd (split_pair p))"
  by (cases p) simp_all

lemma pairs_contain_gauge:
  "pairs g = (p1, p2) \<Longrightarrow>
   p1 \<noteq> p2 \<and> (fst (split_pair p1) = g \<or> snd (split_pair p1) = g) \<and>
   (fst (split_pair p2) = g \<or> snd (split_pair p2) = g)"
  by (cases g) auto

lemma length_col [simp]: "length (col df k) = length df"
  by (simp add: col_def)

lemma nth_col [simp]: "t < length df \<Longrightarrow> col df k ! t = (df ! t) k"
  by (simp add: col_def)

lemma length_from_columns [simp]: "length (from_columns n body) = n"
  by (simp add: from_columns_def)

lemma nth_from_columns [simp]: "t < n \<Longrightarrow> (from_columns n body ! t) k = body k ! t"
  by (simp add: from_columns_def)

lemma length_series_ops [simp]:
  "length (series_eq s v) = length s"
  "length (series_gt s v) = length s"
  "length (series_lt s v) = length s"
  "length (series_ge s v) = length s"
  "length (series_not a) = length a"
  "length (series_and a b) = min (length a) (length b)"
  "length (series_or a b) = min (length a) (length b)"
  "length (series_add x y) = min (length x) (length y)"
  "length (series_sub x y) = min (length x) (length y)"
  "length (series_div x y) = min (length x) (length y)"
  "length (series_div_scalar x v) = length x"
  "length (series_mul_scalar x v) = length x"
  "length (series_set_where c m w) = min (length c) (length m)"
  by (simp_all add: series_eq_def series_gt_def series_lt_def series_ge_def series_not_def
      series_and_def series_or_def series_add_def series_sub_def series_div_def
      series_div_scalar_def series_mul_scalar_def series_set_where_def)

lemma nth_series_cmp [simp]:
  "t < length s \<Longrightarrow> series_eq s v ! t = fl_eq (s ! t) v"
  "t < length s \<Longrightarrow> series_gt s v ! t = fl_gt (s ! t) v"
  "t < length s \<Longrightarrow> series_lt s v ! t = fl_lt (s ! t) v"
  "t < length s \<Longrightarrow> series_ge s v ! t = fl_ge (s ! t) v"
  "t < length s \<Longrightarrow> series_div_scalar s v ! t = fl_div (s ! t) v"
  "t < length s \<Longrightarrow> series_mul_scalar s v ! t = fl_mul (s ! t) v"
  by (simp_all add: series_eq_def series_gt_def series_lt_def series_ge_def
      series_div_scalar_def series_mul_scalar_def)

lemma nth_series_bool [simp]:
  "t < length a \<Longrightarrow> series_not a ! t = (\<not> a ! t)"
  "t < length a \<Longrightarrow> t < length b \<Longrightarrow> series_and a b ! t = (a ! t \<and> b ! t)"
  "t < length a \<Longrightarrow> t < length b \<Longrightarrow> series_or a b ! t = (a ! t \<or> b ! t)"
  by (simp_all add: series_not_def series_and_def series_or_def)

lemma nth_series_arith [simp]:
  "t < length x \<Longrightarrow> t < length y \<Longrightarrow> series_add x y ! t = fl_add (x ! t) (y ! t)"
  "t < length x \<Longrightarrow> t < length y \<Longrightarrow> series_sub x y ! t = fl_sub (x ! t) (y ! t)"
  "t < length x \<Longrightarrow> t < length y \<Longrightarrow> series_div x y ! t = fl_div (x ! t) (y ! t)"
  by (simp_all add: series_add_def series_sub_def series_div_def)

lemma nth_series_set_where [simp]:
  "t < length c \<Longrightarrow> t < length m \<Longrightarrow>
   series_set_where c m w ! t = (if m ! t then w else c ! t)"
  by (simp add: series_set_where_def)

lemma length_frame_ops [simp]:
  "length (frame_round d df) = length df"
  "length (frame_gt df v) = length df"
  "length (any_axis1 bf) = length bf"
  "length (frame_and a b) = min (length a) (length b)"
  "length (frame_where df m) = min (length df) (length m)"
  "length (mean_axis1 df) = length df"
  by (simp_all add: frame_round_def frame_gt_def any_axis1_def frame_and_def frame_where_def
      mean_axis1_def)

lemma nth_frame_round [simp]:
  "t < length df \<Longrightarrow> (frame_round d df ! t) g = fl_round d ((df ! t) g)"
  by (simp add: frame_round_def)

lemma nth_any_gt [simp]:
  "t < length df \<Longrightarrow>
   any_axis1 (frame_gt df v) ! t = (\<exists>g. fl_gt ((df ! t) g) v)"
proof -
  have "(\<exists>g. P g) = (P G1 \<or> P G2 \<or> P G3)" for P
    by (metis gauge.exhaust)
  then show "t < length df \<Longrightarrow> ?thesis"
    by (simp add: any_axis1_def frame_gt_def gauge_ids_def)
qed

subsection \<open>The detectors, entry by entry\<close>

lemma zeros_at:
  "t < length df \<Longrightarrow>
   (validity_from_zeros df min_R ! t) g =
     (\<not> (fl_eq (fl_round 10 ((df ! t) g)) (Fin 0) \<and>
         (fl_gt (fl_round 10 ((df ! t) (other_gauge_ids g ! 0))) min_R \<or>
          fl_gt (fl_round 10 ((df ! t) (other_gauge_ids g ! 1))) min_R)))"
  by (simp add: validity_from_zeros_def Let_def)

lemma length_validity_from_zeros [simp]:
  "length (validity_from_zeros df min_R) = length df"
  by (simp add: validity_from_zeros_def Let_def)

lemma diff_at:
  "t < length df \<Longrightarrow>
   (get_gauge_diff df ! t) p =
     fl_sub (fl_round 10 ((df ! t) (fst (split_pair p))))
            (fl_round 10 ((df ! t) (snd (split_pair p))))"
  by (simp add: get_gauge_diff_def Let_def split_beta)

lemma length_get_gauge_diff [simp]: "length (get_gauge_diff df) = length df"
  by (simp add: get_gauge_diff_def Let_def)

lemma relative_diff_at:
  "t < length df \<Longrightarrow>
   (get_gauge_relative_diff df min_R ! t) p =
     (if fl_lt ((df ! t) (fst (split_pair p))) min_R \<or>
         fl_lt ((df ! t) (snd (split_pair p))) min_R then NaN
      else fl_div (fl_sub (fl_round 10 ((df ! t) (fst (split_pair p))))
                          (fl_round 10 ((df ! t) (snd (split_pair p)))))
             (fl_div (fl_add ((df ! t) (fst (split_pair p))) ((df ! t) (snd (split_pair p))))
                     (Fin 2)))"
  by (simp add: get_gauge_relative_diff_def Let_def split_beta diff_at)

lemma length_get_gauge_relative_diff [simp]:
  "length (get_gauge_relative_diff df min_R) = length df"
  by (simp add: get_gauge_relative_diff_def Let_def)

lemma relative_validity_at:
  "t < length df \<Longrightarrow>
   (validity_from_relative_diff df mx min_R ! t) g =
     (\<not> ((\<exists>h. fl_gt ((df ! t) h) min_R) \<and>
         (fl_gt (fl_mul ((get_gauge_relative_diff df min_R ! t) (fst (pairs g)))
                   (Fin (pair_sign (fst (pairs g)) g))) mx \<or>
          fl_gt (fl_mul ((get_gauge_relative_diff df min_R ! t) (snd (pairs g)))
                   (Fin (pair_sign (snd (pairs g)) g))) mx)))"
  by (simp add: validity_from_relative_diff_def Let_def split_beta)

lemma length_validity_from_relative_diff [simp]:
  "length (validity_from_relative_diff df mx min_R) = length df"
  by (simp add: validity_from_relative_diff_def)

lemma other_gauge_ids_simps [simp]:
  "other_gauge_ids G1 = [G2, G3]"
  "other_gauge_ids G2 = [G1, G3]"
  "other_gauge_ids G3 = [G1, G2]"
  by (simp_all add: other_gauge_ids_def gauge_ids_def)

lemma ex_other_gauge:
  "(\<exists>h. h \<noteq> g \<and> P h) = (P (other_gauge_ids g ! 0) \<or> P (other_gauge_ids g ! 1))"
proof (cases g)
  case G1
  have "(\<exists>h. h \<noteq> G1 \<and> P h) = (P G2 \<or> P G3)" by (metis gauge.exhaust gauge.distinct)
  with G1 show ?thesis by simp
next
  case G2
  have "(\<exists>h. h \<noteq> G2 \<and> P h) = (P G1 \<or> P G3)" by (metis gauge.exhaust gauge.distinct)
  with G2 show ?thesis by simp
next
  case G3
  have "(\<exists>h. h \<noteq> G3 \<and> P h) = (P G1 \<or> P G2)" by (metis gauge.exhaust gauge.distinct)
  with G3 show ?thesis by simp
qed

lemma rint_of_int [simp]: "rint (of_int k) = k"
  by (simp add: rint_def)

lemma rint_simps [simp]: "rint 0 = 0" "rint 1 = 1" "rint (numeral k) = numeral k"
  using rint_of_int [of 0] rint_of_int [of 1] rint_of_int [of "numeral k"] by simp_all

lemma fl_round_NaN_iff [simp]: "(fl_round d v = NaN) = (v = NaN)"
  by (cases v) simp_all

lemma fl_mul_commute: "fl_mul a b = fl_mul b a"
  by (cases a; cases b) (simp_all add: mult.commute)

lemma pair_sign_first:
  "pair_sign p g = (if fst (split_pair p) = g then - 1 else 1)"
  by (cases p; cases g) (simp_all add: pair_sign_def)

lemma fl_round_10 [simp]: "fl_round 10 (Fin 10) = Fin 10" "fl_round 10 (Fin 1) = Fin 1"
  using rint_of_int [of "10 * 10 ^ 10"] rint_of_int [of "10 ^ 10"] by simp_all

lemma fl_cmp_NaN [simp]:
  "fl_lt a NaN = False" "fl_lt NaN a = False"
  "fl_gt a NaN = False" "fl_gt NaN a = False"
  "fl_eq a NaN = False" "fl_eq NaN a = False"
  "fl_ge a NaN = False" "fl_ge NaN a = False"
  by (cases a; simp add: fl_gt_def fl_eq_def fl_ge_def)+

lemma fl_mul_NaN [simp]: "fl_mul NaN a = NaN" "fl_mul a NaN = NaN"
  by (cases a; simp)+

lemma fl_arith_NaN [simp]:
  "fl_add NaN a = NaN" "fl_add a NaN = NaN"
  "fl_sub NaN a = NaN" "fl_sub a NaN = NaN"
  "fl_div NaN a = NaN" "fl_div a NaN = NaN"
  by (cases a; simp add: fl_sub_def)+

lemma length_gauge_corr [simp]:
  "length (gauge_corr rolling_corr df w) = length (rolling_corr df w)"
  by (simp add: gauge_corr_def Let_def)

lemma gauge_corr_at:
  "t < length (rolling_corr df w) \<Longrightarrow>
   (gauge_corr rolling_corr df w ! t) p =
     (if fl_gt ((rolling_corr df w ! t) (fst (split_pair p)) (snd (split_pair p))) (Fin 1)
      then Fin 0
      else (rolling_corr df w ! t) (fst (split_pair p)) (snd (split_pair p)))"
  by (simp add: gauge_corr_def Let_def split_beta)

lemma length_validity_from_corr [simp]:
  "length (validity_from_corr cf min_corr) = length cf"
  by (simp add: validity_from_corr_def)

lemma corr_validity_at:
  "t < length cf \<Longrightarrow>
   (validity_from_corr cf min_corr ! t) g =
     (fl_ge ((cf ! t) (fst (pairs g))) min_corr \<or> fl_ge ((cf ! t) (snd (pairs g))) min_corr)"
  by (simp add: validity_from_corr_def Let_def)

subsection \<open>Rolling means at the edges of a series\<close>

lemma length_observations: "length (observations vs) \<le> length vs"
  by (induction vs rule: observations.induct) simp_all

lemma roll_mean_at_short:
  assumes "snd (window_bounds window (length s) t) - fst (window_bounds window (length s) t) < window"
  shows "roll_mean_at window s t = NaN"
proof -
  obtain start stop where b: "window_bounds window (length s) t = (start, stop)"
    by (cases "window_bounds window (length s) t")
  have "length (observations (take (stop - start) (drop start s))) \<le> stop - start"
    using length_observations [of "take (stop - start) (drop start s)"] by simp
  with assms b show ?thesis
    by (simp add: roll_mean_at_def)
qed

lemma window_bounds_incomplete:
  assumes "0 < hours" and "window_incomplete hours n t"
  shows "snd (window_bounds (nat (60 * hours)) n t) - fst (window_bounds (nat (60 * hours)) n t)
           < nat (60 * hours)"
proof -
  have off: "(int (nat (60 * hours)) - 1) div 2 = 30 * hours - 1"
    using assms(1) by simp
  show ?thesis
    using assms unfolding window_bounds_def window_incomplete_def Let_def off
    by (auto simp: max_def min_def)
qed

text \<open>
  \<open>window_incomplete\<close> holds at exactly the index entries whose window, clipped to
  the series, has fewer than \<open>60 * hours\<close> entries.
\<close>

lemma window_incomplete_iff:
  assumes "0 < hours" and "t < n"
  shows "window_incomplete hours n t =
           (snd (window_bounds (nat (60 * hours)) n t) - fst (window_bounds (nat (60 * hours)) n t)
              < nat (60 * hours))"
proof -
  have off: "(int (nat (60 * hours)) - 1) div 2 = 30 * hours - 1"
    using assms(1) by simp
  show ?thesis
    using assms unfolding window_bounds_def window_incomplete_def Let_def off
    by (auto simp: max_def min_def)
qed

lemma roll_mean_at_incomplete:
  "0 < hours \<Longrightarrow> window_incomplete hours (length s) t \<Longrightarrow>
   roll_mean_at (nat (60 * hours)) s t = NaN"
  by (rule roll_mean_at_short) (rule window_bounds_incomplete)

lemma length_rolling_mean_frame [simp]: "length (rolling_mean_frame df w) = length df"
  by (simp add: rolling_mean_frame_def)

lemma rolling_mean_frame_at:
  "t < length df \<Longrightarrow> (rolling_mean_frame df w ! t) g = roll_mean_at w (col df g) t"
  by (simp add: rolling_mean_frame_def)

subsection \<open>The combination, entry by entry\<close>

lemma nth_frame_and [simp]:
  "t < length a \<Longrightarrow> t < length b \<Longrightarrow> frame_and a b ! t = (\<lambda>g. (a ! t) g \<and> (b ! t) g)"
  by (simp add: frame_and_def)

lemma nth_frame_where [simp]:
  "t < length df \<Longrightarrow> t < length m \<Longrightarrow>
   frame_where df m ! t = (\<lambda>g. if (m ! t) g then (df ! t) g else NaN)"
  by (simp add: frame_where_def)

lemma nth_mean_axis1 [simp]:
  "t < length df \<Longrightarrow> mean_axis1 df ! t = nanmean (map (df ! t) gauge_ids)"
  by (simp add: mean_axis1_def)

lemma valid_combo_ok:
  "0 < h_diff \<Longrightarrow> 0 < h_zeros \<Longrightarrow>
   valid_combo df h_diff mx min_R h_zeros =
     Inr (frame_and
            (validity_from_zeros (rolling_mean_frame df (nat (60 * h_zeros)))
               (fl_div min_R (Fin (of_int h_zeros))))
            (validity_from_relative_diff (rolling_mean_frame df (nat (60 * h_diff))) mx
               (fl_div min_R (Fin (of_int h_diff)))))"
  by (simp add: valid_combo_def rolling_mean_def py_truediv_def)

lemma valid_combo_Inr_iff:
  "(\<exists>m. valid_combo df h_diff mx min_R h_zeros = Inr m) = (0 < h_diff \<and> 0 < h_zeros)"
proof
  assume "\<exists>m. valid_combo df h_diff mx min_R h_zeros = Inr m"
  then show "0 < h_diff \<and> 0 < h_zeros"
    by (auto simp: valid_combo_def rolling_mean_def py_truediv_def Let_def
             split: if_splits sum.splits)
next
  assume "0 < h_diff \<and> 0 < h_zeros"
  then show "\<exists>m. valid_combo df h_diff mx min_R h_zeros = Inr m"
    by (simp add: valid_combo_ok)
qed

lemma nanmean_where:
  "nanmean (map (\<lambda>g. if mk g then r g else NaN) gs) =
   arithmetic_mean (map r (filter (\<lambda>g. mk g \<and> r g \<noteq> NaN) gs))"
proof -
  have "filter (\<lambda>v. v \<noteq> NaN) (map (\<lambda>g. if mk g then r g else NaN) gs) =
        map r (filter (\<lambda>g. mk g \<and> r g \<noteq> NaN) gs)"
    by (induction gs) simp_all
  then show ?thesis
    by (simp add: nanmean_def arithmetic_mean_def)
qed

lemma length_valid_combo:
  "valid_combo df h_diff mx min_R h_zeros = Inr m \<Longrightarrow> length m = length df"
  using valid_combo_Inr_iff [of df h_diff mx min_R h_zeros]
  by (auto simp: valid_combo_ok)

lemma combine_gauges_at:
  assumes "valid_combo df h_diff mx min_R h_zeros = Inr m" and "t < length df"
  shows "\<exists>res. combine_gauges df h_diff mx min_R h_zeros = Inr res \<and> length res = length df \<and>
           res ! t = arithmetic_mean
                       (map (df ! t) (filter (\<lambda>g. (m ! t) g \<and> (df ! t) g \<noteq> NaN) gauge_ids))"
proof -
  have l: "length m = length df" using assms(1) by (rule length_valid_combo)
  have "nanmean (map (frame_where df m ! t) gauge_ids) =
        nanmean (map (\<lambda>g. if (m ! t) g then (df ! t) g else NaN) gauge_ids)"
    using assms(2) l by simp
  then show ?thesis
    using assms l by (simp add: combine_gauges_def nanmean_where)
qed

subsection \<open>Frames of one row and constant frames\<close>

lemma observations_replicate: "observations (replicate k (Fin x)) = replicate k x"
  by (induction k) simp_all

lemma roll_mean_at_replicate:
  assumes "window_bounds w n t = (a, b)" and "b - a = w" and "0 < w" and "b \<le> n"
  shows "roll_mean_at w (replicate n (Fin x)) t = Fin x"
proof -
  have "min (n - a) (b - a) = w" using assms by auto
  then have "observations (take (b - a) (drop a (replicate n (Fin x)))) = replicate w x"
    by (simp add: observations_replicate)
  then show ?thesis
    using assms by (simp add: roll_mean_at_def sum_list_replicate)
qed

lemma row3_simps [simp]:
  "row3 a b c G1 = a" "row3 a b c G2 = b" "row3 a b c G3 = c"
  by (simp_all add: row3_def)

lemma rolled_NaN_valid_zeros:
  "t < length df \<Longrightarrow> (df ! t) g = NaN \<Longrightarrow> (validity_from_zeros df min_R ! t) g"
  by (simp add: zeros_at)

lemma rolled_NaN_valid_diff:
  "t < length df \<Longrightarrow> \<forall>h. (df ! t) h = NaN \<Longrightarrow> (validity_from_relative_diff df mx min_R ! t) g"
  by (simp add: relative_validity_at relative_diff_at)

lemma edge_rolled_NaN:
  "t < length df \<Longrightarrow> 0 < hours \<Longrightarrow> window_incomplete hours (length df) t \<Longrightarrow>
   (rolling_mean_frame df (nat (60 * hours)) ! t) g = NaN"
  using roll_mean_at_incomplete [of hours "col df g" t]
  by (simp add: rolling_mean_frame_at)

lemma valid_combo_single_row:
  "0 < h_diff \<Longrightarrow> 0 < h_zeros \<Longrightarrow>
   valid_combo [r] h_diff mx min_R h_zeros = Inr [row3 True True True]"
proof -
  assume pos: "0 < h_diff" "0 < h_zeros"
  have e: "window_incomplete h_diff (length [r]) 0" "window_incomplete h_zeros (length [r]) 0"
    using pos by (simp_all add: window_incomplete_def)
  have z: "(validity_from_zeros (rolling_mean_frame [r] (nat (60 * h_zeros))) m ! 0) g" for m g
    using edge_rolled_NaN [of 0 "[r]" h_zeros g] pos e
    by (intro rolled_NaN_valid_zeros) simp_all
  have d: "(validity_from_relative_diff (rolling_mean_frame [r] (nat (60 * h_diff))) mx m ! 0) g"
    for m g
    using edge_rolled_NaN [of 0 "[r]" h_diff] pos e
    by (intro rolled_NaN_valid_diff) simp_all
  show ?thesis
    unfolding valid_combo_ok [OF pos]
    by (auto simp add: list_eq_iff_nth_eq fun_eq_iff z d row3_def split: gauge.split)
qed

lemma combine_gauges_single_row:
  "0 < h_diff \<Longrightarrow> 0 < h_zeros \<Longrightarrow>
   combine_gauges [r] h_diff mx min_R h_zeros = Inr [nanmean (map r gauge_ids)]"
  by (simp add: combine_gauges_def valid_combo_single_row mean_axis1_def frame_where_def
      gauge_ids_def)

lemma rolled_constant_frame:
  assumes "window_bounds w n t = (a, b)" and "b - a = w" and "0 < w" and "b \<le> n" and "t < n"
  shows "(rolling_mean_frame (replicate n (row3 (Fin x) (Fin y) (Fin z))) w ! t) g =
           row3 (Fin x) (Fin y) (Fin z) g"
  using assms
  by (cases g) (simp_all add: rolling_mean_frame_at col_def roll_mean_at_replicate)

lemma constant_frame_mask:
  assumes "valid_combo (replicate 60 (row3 (Fin 0) (Fin 1) (Fin 1))) 24 (Fin (3 / 10)) (Fin (1 / 2)) 1
             = Inr m"
  shows "\<not> (m ! 30) G1 \<and> (m ! 30) G2 \<and> (m ! 30) G3 \<and> (m ! 5) G1 \<and> (m ! 5) G2 \<and> (m ! 5) G3"
proof -
  let ?df = "replicate 60 (row3 (Fin 0) (Fin 1) (Fin (1::real)))"
  have wb: "window_bounds 60 60 30 = (0, 60)"
    by (simp add: window_bounds_def)
  have rz: "(rolling_mean_frame ?df 60 ! 30) g = row3 (Fin 0) (Fin 1) (Fin 1) g" for g
    by (rule rolled_constant_frame [OF wb]) simp_all
  have rd: "(rolling_mean_frame ?df 1440 ! t) g = NaN" if "t < 60" for t g
    using edge_rolled_NaN [of t ?df 24 g] that by (simp add: window_incomplete_def)
  have rz5: "(rolling_mean_frame ?df 60 ! 5) g = NaN" for g
    using edge_rolled_NaN [of 5 ?df 1 g] by (simp add: window_incomplete_def)
  have d: "(validity_from_relative_diff (rolling_mean_frame ?df 1440) mx fl ! t) g"
    if "t < 60" for mx fl t g
    using that rd by (intro rolled_NaN_valid_diff) simp_all
  have z5: "(validity_from_zeros (rolling_mean_frame ?df 60) fl ! 5) g" for fl g
    using rz5 by (intro rolled_NaN_valid_zeros) simp_all
  have m: "m = frame_and (validity_from_zeros (rolling_mean_frame ?df 60) (Fin (1 / 2)))
                 (validity_from_relative_diff (rolling_mean_frame ?df 1440) (Fin (3 / 10))
                    (Fin (1 / 48)))"
    using assms valid_combo_ok [of 24 1 ?df "Fin (3 / 10)" "Fin (1 / 2)"] by simp
  show ?thesis
    unfolding m by (simp add: d z5 zeros_at rz fl_eq_def fl_gt_def)
qed

lemma constant_frame_zero_validity:
  "\<not> (validity_from_zeros (rolling_mean_frame (replicate 60 (row3 (Fin 0) (Fin 1) (Fin 1))) 60)
        (Fin (1 / 2)) ! 30) G1"
proof -
  have wb: "window_bounds 60 60 30 = (0, 60)"
    by (simp add: window_bounds_def)
  have "(rolling_mean_frame (replicate 60 (row3 (Fin 0) (Fin 1) (Fin 1))) 60 ! 30) g =
          row3 (Fin 0) (Fin 1) (Fin 1) g" for g
    by (rule rolled_constant_frame [OF wb]) simp_all
  then show ?thesis
    by (simp add: zeros_at fl_eq_def fl_gt_def)
qed

subsection \<open>Rounding to doubles\<close>









lemma double_round_scaled:
  "r \<noteq> 0 \<Longrightarrow>
   double_round r =
     of_int (rint (r * 2 powr of_int (52 - double_exponent r))) /
       2 powr of_int (52 - double_exponent r)"
proof -
  have "(2::real) powr of_int (double_exponent r - 52) =
          1 / 2 powr of_int (52 - double_exponent r)"
    using powr_minus_divide [of 2 "of_int (52 - double_exponent r)"] by simp
  then show "r \<noteq> 0 \<Longrightarrow> ?thesis" by (simp add: double_round_def)
qed





text \<open>Rounding inside one binade, and the constants of the program.\<close>

lemma double_exponent_eq:
  assumes "2 powr of_int e \<le> \<bar>r\<bar>" and "\<bar>r\<bar> < 2 powr of_int (e + 1)" and "- 1022 \<le> e"
  shows "double_exponent r = e"
proof -
  have "0 < \<bar>r\<bar>" using assms(1) by (smt (verit) powr_gt_zero)
  then have "\<lfloor>log 2 \<bar>r\<bar>\<rfloor> = e"
    using assms(1,2) floor_log_eq_powr_iff [of "\<bar>r\<bar>" 2 e] by simp
  then show ?thesis using assms(3) by (simp add: double_exponent_def)
qed

lemma double_round_unit:
  assumes "1 \<le> r" and "r < 2"
  shows "double_round r = of_int (rint (r * 2 ^ 52)) / 2 ^ 52"
proof -
  have "double_exponent r = 0"
    using assms by (intro double_exponent_eq) simp_all
  moreover have "r \<noteq> 0" using assms by simp
  ultimately show ?thesis by (simp add: double_round_scaled)
qed


lemma double_round_one [simp]: "double_round 1 = 1"
  by (simp add: double_round_unit)



lemma fl_round64_not_NaN [simp]: "fl_round64 (Fin q) \<noteq> NaN"
  by (simp add: Let_def)







text \<open>In exact arithmetic the correction is strictly increasing.\<close>

lemma wmo_exact_strictly_increasing:
  "0 < x \<Longrightarrow> x < y \<Longrightarrow> (x / 1.16) powr (1 / 0.92) < (y / 1.16) powr (1 / 0.92 :: real)"
  by (intro powr_less_mono2) simp_all


section \<open>The zero-mismatch detector\<close>

text \<open>
  Claim C4. For every three-gauge frame and every floor \<open>min_R\<close>,
  \<open>validity_from_zeros\<close> marks the gauge \<open>g\<close> invalid at the index entry \<open>t\<close>
  exactly when the value of \<open>g\<close> at \<open>t\<close>, rounded to 10 decimals, equals 0 and the
  rounded value of one of the two other gauges at \<open>t\<close> is strictly greater than
  \<open>min_R\<close>. In particular, where the three gauges read 0 and \<open>min_R \<ge> 0\<close>, the
  three are marked valid.
\<close>

theorem validity_from_zeros_spec:
  assumes "t < length df"
  shows "((\<not> (validity_from_zeros df min_R ! t) g) =
            (fl_eq (fl_round 10 ((df ! t) g)) (Fin 0) \<and>
             (\<exists>h. h \<noteq> g \<and> fl_gt (fl_round 10 ((df ! t) h)) min_R))) \<and>
         ((\<forall>h. (df ! t) h = Fin 0) \<and> fl_ge min_R (Fin 0) \<longrightarrow>
            (\<forall>h. (validity_from_zeros df min_R ! t) h))"
proof (intro conjI impI)
  show "(\<not> (validity_from_zeros df min_R ! t) g) =
          (fl_eq (fl_round 10 ((df ! t) g)) (Fin 0) \<and>
           (\<exists>h. h \<noteq> g \<and> fl_gt (fl_round 10 ((df ! t) h)) min_R))"
    using assms by (simp add: zeros_at ex_other_gauge [where g = g])
next
  assume z: "(\<forall>h. (df ! t) h = Fin 0) \<and> fl_ge min_R (Fin 0)"
  then have "\<not> fl_gt (Fin 0) min_R"
    by (cases min_R) (auto simp: fl_ge_def fl_gt_def fl_eq_def)
  with z assms show "\<forall>h. (validity_from_zeros df min_R ! t) h"
    by (simp add: zeros_at)
qed

theorem validity_from_zeros_spec_witness:
  "(\<not> (validity_from_zeros [row3 (Fin 0) (Fin 1) (Fin 0), row3 (Fin 0) (Fin 0) (Fin 0)]
          (Fin (1 / 2)) ! 0) G1) \<and>
   (validity_from_zeros [row3 (Fin 0) (Fin 1) (Fin 0), row3 (Fin 0) (Fin 0) (Fin 0)]
          (Fin (1 / 2)) ! 0) G2 \<and>
   (\<forall>h. (validity_from_zeros [row3 (Fin 0) (Fin 1) (Fin 0), row3 (Fin 0) (Fin 0) (Fin 0)]
          (Fin (1 / 2)) ! 1) h)"
proof -
  let ?df = "[row3 (Fin 0) (Fin 1) (Fin 0), row3 (Fin 0) (Fin 0) (Fin 0)]"
  let ?m = "Fin (1 / 2)"
  have l0: "0 < length ?df" and l1: "1 < length ?df" by simp_all
  have "fl_eq (fl_round 10 ((?df ! 0) G1)) (Fin 0) \<and>
        (\<exists>h. h \<noteq> G1 \<and> fl_gt (fl_round 10 ((?df ! 0) h)) ?m)"
    by (intro conjI exI [of _ G2]) (simp_all add: row3_def fl_eq_def fl_gt_def)
  with validity_from_zeros_spec [OF l0, of ?m G1]
  have a: "\<not> (validity_from_zeros ?df ?m ! 0) G1" by blast
  have "\<not> fl_eq (fl_round 10 ((?df ! 0) G2)) (Fin 0)"
    by (simp add: row3_def fl_eq_def)
  with validity_from_zeros_spec [OF l0, of ?m G2]
  have b: "(validity_from_zeros ?df ?m ! 0) G2" by blast
  have "(\<forall>h. (?df ! 1) h = Fin 0) \<and> fl_ge ?m (Fin 0)"
    by (simp add: row3_def fl_ge_def split: gauge.split)
  with validity_from_zeros_spec [OF l1, of ?m G1]
  have c: "\<forall>h. (validity_from_zeros ?df ?m ! 1) h" by blast
  from a b c show ?thesis by blast
qed

section \<open>Pair differencing and the relative-difference detector\<close>



text \<open>
  The floor is compared with the value of the frame, not with the rounded one:
  0.49999999996 rounds to 0.5 and is below the floor 0.5.
\<close>

lemma relative_diff_floor_on_unrounded_value:
  "fl_round 10 (Fin 0.49999999996) = Fin 0.5 \<and>
   (get_gauge_relative_diff [row3 (Fin 0.49999999996) (Fin 1) (Fin 1)] (Fin 0.5) ! 0) P12 = NaN \<and>
   (get_gauge_relative_diff [row3 (Fin 0.5) (Fin 1) (Fin 1)] (Fin 0.5) ! 0) P12 = Fin (- (2 / 3))"
  by (simp add: relative_diff_at rint_def fl_sub_def)

text \<open>
  Claim C3. For every frame, threshold and floor, \<open>validity_from_relative_diff\<close>
  marks the gauge \<open>g\<close> invalid at \<open>t\<close> exactly when one of the three gauges exceeds
  \<open>min_R\<close> at \<open>t\<close> and \<open>sign1 * relDiff p1 t\<close> or \<open>sign2 * relDiff p2 t\<close>
  exceeds the threshold, where \<open>p1\<close> and \<open>p2\<close> are the two pairs of \<open>g\<close> and the sign
  of a pair is \<open>-1\<close> when \<open>g\<close> is its first member and \<open>+1\<close> otherwise.
\<close>

theorem validity_from_relative_diff_spec:
  assumes "t < length df" and "pairs g = (p1, p2)"
    and "sign1 = (if fst (split_pair p1) = g then - 1 else 1)"
    and "sign2 = (if fst (split_pair p2) = g then - 1 else 1)"
  shows "(\<not> (validity_from_relative_diff df max_allowed_relative_diff min_R ! t) g) =
           ((\<exists>h. fl_gt ((df ! t) h) min_R) \<and>
            (fl_gt (fl_mul (Fin sign1) ((get_gauge_relative_diff df min_R ! t) p1))
               max_allowed_relative_diff \<or>
             fl_gt (fl_mul (Fin sign2) ((get_gauge_relative_diff df min_R ! t) p2))
               max_allowed_relative_diff))"
proof -
  have s: "pair_sign p1 g = sign1" "pair_sign p2 g = sign2"
    using assms(3,4) by (simp_all add: pair_sign_first)
  show ?thesis
    using assms(1,2) by (simp add: relative_validity_at s fl_mul_commute [of "Fin _"])
qed

theorem validity_from_relative_diff_spec_witness:
  "\<not> (validity_from_relative_diff [row3 (Fin 10) (Fin 10) (Fin 1)] (Fin (3 / 10)) (Fin (1 / 2)) ! 0)
       G3"
proof -
  let ?df = "[row3 (Fin 10) (Fin 10) (Fin 1)]"
  let ?mx = "Fin (3 / 10)"
  let ?m = "Fin (1 / 2)"
  have l0: "0 < length ?df" by simp
  have p: "pairs G3 = (P13, P23)" by simp
  have s1: "(1::real) = (if fst (split_pair P13) = G3 then - 1 else 1)"
    and s2: "(1::real) = (if fst (split_pair P23) = G3 then - 1 else 1)" by simp_all
  have rd: "(get_gauge_relative_diff ?df ?m ! 0) P13 = Fin (18 / 11)"
    by (simp add: relative_diff_at fl_sub_def row3_def del: fl_round.simps)
  have "(\<exists>h. fl_gt ((?df ! 0) h) ?m) \<and>
        (fl_gt (fl_mul (Fin 1) ((get_gauge_relative_diff ?df ?m ! 0) P13)) ?mx \<or>
         fl_gt (fl_mul (Fin 1) ((get_gauge_relative_diff ?df ?m ! 0) P23)) ?mx)"
    unfolding rd by (intro conjI exI [of _ G1] disjI1) (simp_all add: row3_def fl_gt_def)
  with validity_from_relative_diff_spec [OF l0 p s1 s2, of ?mx ?m]
  show ?thesis by blast
qed

text \<open>
  Claim C6. Where the three gauges read 10, 10 and 1, with the threshold 0.3 and a
  floor between 0 and 1, the detector marks the gauge reading 1 invalid and the two
  gauges reading 10 valid.
\<close>

theorem relative_diff_sign_convention:
  assumes "t < length df"
    and "(df ! t) G1 = Fin 10" and "(df ! t) G2 = Fin 10" and "(df ! t) G3 = Fin 1"
    and "0 \<le> m" and "m \<le> 1"
  shows "\<not> (validity_from_relative_diff df (Fin 0.3) (Fin m) ! t) G3 \<and>
         (validity_from_relative_diff df (Fin 0.3) (Fin m) ! t) G1 \<and>
         (validity_from_relative_diff df (Fin 0.3) (Fin m) ! t) G2"
proof -
  have gt: "\<exists>h. fl_gt ((df ! t) h) (Fin m)"
    using assms by (intro exI [of _ G1]) (simp add: fl_gt_def)
  have rd: "(get_gauge_relative_diff df (Fin m) ! t) P12 = Fin 0"
    "(get_gauge_relative_diff df (Fin m) ! t) P13 = Fin (18 / 11)"
    "(get_gauge_relative_diff df (Fin m) ! t) P23 = Fin (18 / 11)"
    using assms by (simp_all add: relative_diff_at fl_sub_def del: fl_round.simps)
  show ?thesis
    using assms(1) gt by (simp add: relative_validity_at rd pair_sign_def fl_gt_def)
qed

theorem relative_diff_sign_convention_witness:
  "\<not> (validity_from_relative_diff [row3 (Fin 10) (Fin 10) (Fin 1)] (Fin 0.3) (Fin (1 / 2)) ! 0) G3 \<and>
   (validity_from_relative_diff [row3 (Fin 10) (Fin 10) (Fin 1)] (Fin 0.3) (Fin (1 / 2)) ! 0) G1 \<and>
   (validity_from_relative_diff [row3 (Fin 10) (Fin 10) (Fin 1)] (Fin 0.3) (Fin (1 / 2)) ! 0) G2"
proof -
  let ?df = "[row3 (Fin 10) (Fin 10) (Fin 1)]"
  have l0: "0 < length ?df" by simp
  have v: "(?df ! 0) G1 = Fin 10" "(?df ! 0) G2 = Fin 10" "(?df ! 0) G3 = Fin 1"
    by (simp_all add: row3_def)
  have m: "(0::real) \<le> 1 / 2" "(1 / 2 :: real) \<le> 1" by simp_all
  show ?thesis by (rule relative_diff_sign_convention [OF l0 v m])
qed

section \<open>The correlation detector\<close>

text \<open>
  Claim C7. For every frame, window length and threshold \<open>min_corr\<close>: of the rolling
  pairwise correlations (the library's, a parameter here) \<open>gauge_corr\<close> replaces every
  value strictly greater than 1 by 0, and \<open>validity_from_corr\<close> on the result marks the
  gauge \<open>g\<close> valid at \<open>t\<close> exactly when one of the two replaced correlations of the pairs
  of \<open>g\<close> at \<open>t\<close> is greater than or equal to \<open>min_corr\<close>.
\<close>

theorem correlation_detector_spec:
  assumes "t < length (rolling_corr df corr_window_length)" and "pairs g = (p1, p2)"
    and "split_pair p1 = (a1, b1)" and "split_pair p2 = (a2, b2)"
    and "c1 = (rolling_corr df corr_window_length ! t) a1 b1"
    and "c2 = (rolling_corr df corr_window_length ! t) a2 b2"
  shows "(gauge_corr rolling_corr df corr_window_length ! t) p1 =
           (if fl_gt c1 (Fin 1) then Fin 0 else c1) \<and>
         (gauge_corr rolling_corr df corr_window_length ! t) p2 =
           (if fl_gt c2 (Fin 1) then Fin 0 else c2) \<and>
         (validity_from_corr (gauge_corr rolling_corr df corr_window_length) min_corr ! t) g =
           (fl_ge (if fl_gt c1 (Fin 1) then Fin 0 else c1) min_corr \<or>
            fl_ge (if fl_gt c2 (Fin 1) then Fin 0 else c2) min_corr)"
  using assms by (simp add: corr_validity_at gauge_corr_at)

theorem correlation_detector_spec_witness:
  "(gauge_corr (\<lambda>df w. [\<lambda>a b. if a = G1 \<and> b = G2 then Fin 1.0000000002 else Fin 0.5])
       [row3 (Fin 1) (Fin 2) (Fin 3)] 60 ! 0) P12 = Fin 0 \<and>
   \<not> (validity_from_corr
        (gauge_corr (\<lambda>df w. [\<lambda>a b. if a = G1 \<and> b = G2 then Fin 1.0000000002 else Fin 0.5])
           [row3 (Fin 1) (Fin 2) (Fin 3)] 60) (Fin 0.9) ! 0) G1"
proof -
  let ?rc = "\<lambda>(df :: (gauge, fl) frame) (w :: int).
               [\<lambda>a b. if a = G1 \<and> b = G2 then Fin 1.0000000002 else Fin 0.5]"
  let ?df = "[row3 (Fin 1) (Fin 2) (Fin 3)]"
  have l: "0 < length (?rc ?df 60)" by simp
  have p: "pairs G1 = (P12, P13)" "split_pair P12 = (G1, G2)" "split_pair P13 = (G1, G3)"
    by simp_all
  have c1: "Fin 1.0000000002 = (?rc ?df 60 ! 0) G1 G2" and c2: "Fin 0.5 = (?rc ?df 60 ! 0) G1 G3"
    by simp_all
  from correlation_detector_spec [OF l p c1 c2, where min_corr = "Fin 0.9"]
  show ?thesis by (simp add: fl_gt_def fl_ge_def fl_eq_def)
qed

section \<open>Missing values\<close>

text \<open>
  Claim C8. A NaN never triggers: a gauge whose value at \<open>t\<close> is NaN is not flagged
  invalid by \<open>validity_from_zeros\<close>; a relative difference that is NaN at \<open>t\<close> adds
  nothing to the invalidity test of \<open>validity_from_relative_diff\<close>, which is then that
  of the other pair alone; a pair correlation that is NaN at \<open>t\<close> does not meet the
  threshold of \<open>validity_from_corr\<close>, whose verdict is then that of the other pair
  alone.
\<close>

theorem nan_never_triggers:
  "(t < length df \<and> (df ! t) g = NaN \<longrightarrow> (validity_from_zeros df min_R ! t) g) \<and>
   (t < length df \<and> pairs g = (p1, p2) \<and>
    (get_gauge_relative_diff df min_R ! t) p1 = NaN \<longrightarrow>
      (\<not> (validity_from_relative_diff df mx min_R ! t) g) =
        ((\<exists>h. fl_gt ((df ! t) h) min_R) \<and>
         fl_gt (fl_mul ((get_gauge_relative_diff df min_R ! t) p2) (Fin (pair_sign p2 g))) mx)) \<and>
   (t < length df \<and> pairs g = (p1, p2) \<and>
    (get_gauge_relative_diff df min_R ! t) p2 = NaN \<longrightarrow>
      (\<not> (validity_from_relative_diff df mx min_R ! t) g) =
        ((\<exists>h. fl_gt ((df ! t) h) min_R) \<and>
         fl_gt (fl_mul ((get_gauge_relative_diff df min_R ! t) p1) (Fin (pair_sign p1 g))) mx)) \<and>
   (t < length cf \<and> pairs g = (p1, p2) \<and> (cf ! t) p1 = NaN \<longrightarrow>
      (validity_from_corr cf min_corr ! t) g = fl_ge ((cf ! t) p2) min_corr) \<and>
   (t < length cf \<and> pairs g = (p1, p2) \<and> (cf ! t) p2 = NaN \<longrightarrow>
      (validity_from_corr cf min_corr ! t) g = fl_ge ((cf ! t) p1) min_corr)"
  by (auto simp: zeros_at relative_validity_at corr_validity_at)

theorem nan_never_triggers_witness:
  "(validity_from_zeros [row3 (Fin 10) NaN (Fin 1)] (Fin (1 / 2)) ! 0) G2 \<and>
   (validity_from_relative_diff [row3 (Fin 10) NaN (Fin 1)] (Fin (3 / 10)) (Fin (1 / 2)) ! 0) G2 \<and>
   \<not> (validity_from_corr [\<lambda>p. NaN] (Fin (9 / 10)) ! 0) G2"
proof -
  let ?df = "[row3 (Fin 10) NaN (Fin 1)]"
  let ?cf = "[\<lambda>p::pair. NaN]"
  let ?m = "Fin (1 / 2)"
  have h1: "0 < length ?df \<and> (?df ! 0) G2 = NaN" by simp
  have h2: "0 < length ?df \<and> pairs G2 = (P12, P23) \<and>
            (get_gauge_relative_diff ?df ?m ! 0) P12 = NaN"
    by (simp add: relative_diff_at)
  have h3: "0 < length ?df \<and> pairs G2 = (P12, P23) \<and>
            (get_gauge_relative_diff ?df ?m ! 0) P23 = NaN"
    by (simp add: relative_diff_at)
  have h4: "0 < length ?cf \<and> pairs G2 = (P12, P23) \<and> (?cf ! 0) P12 = NaN" by simp
  have h5: "0 < length ?cf \<and> pairs G2 = (P12, P23) \<and> (?cf ! 0) P23 = NaN" by simp
  note T = nan_never_triggers [of 0 ?df G2 ?m P12 P23 "Fin (3 / 10)" ?cf "Fin (9 / 10)"]
  from T h1 have a: "(validity_from_zeros ?df ?m ! 0) G2" by blast
  from T h2 h3 have b: "(validity_from_relative_diff ?df (Fin (3 / 10)) ?m ! 0) G2"
    by simp
  from T h4 h5 have c: "\<not> (validity_from_corr ?cf (Fin (9 / 10)) ! 0) G2"
    by simp
  from a b c show ?thesis by blast
qed

section \<open>The fusion\<close>

text \<open>
  Claim C2. For positive averaging hours (otherwise \<open>combine_gauges\<close> raises), every
  frame, gauge \<open>g\<close> and index entry \<open>t\<close>: the fused validity that
  \<open>combine_gauges\<close> uses is, at \<open>(g, t)\<close>, the conjunction of the mask of
  \<open>validity_from_zeros\<close> on the frame rolled over the short window and of the mask of
  \<open>validity_from_relative_diff\<close> on the frame rolled over the long window; where one of
  the two is false, the fused entry is false.
\<close>

theorem fused_validity_is_conjunction:
  assumes "0 < h_diff" and "0 < h_zeros" and "t < length df"
    and "zero_validity =
           validity_from_zeros (rolling_mean_frame df (nat (60 * h_zeros)))
             (fl_div min_R (Fin (of_int h_zeros)))"
    and "diff_validity =
           validity_from_relative_diff (rolling_mean_frame df (nat (60 * h_diff))) mx
             (fl_div min_R (Fin (of_int h_diff)))"
  shows "\<exists>df_valid_combo.
           valid_combo df h_diff mx min_R h_zeros = Inr df_valid_combo \<and>
           length df_valid_combo = length df \<and>
           (df_valid_combo ! t) g = ((zero_validity ! t) g \<and> (diff_validity ! t) g) \<and>
           (\<not> (zero_validity ! t) g \<or> \<not> (diff_validity ! t) g \<longrightarrow>
              \<not> (df_valid_combo ! t) g)"
proof -
  have "valid_combo df h_diff mx min_R h_zeros = Inr (frame_and zero_validity diff_validity)"
    using assms(1,2,4,5) by (simp add: valid_combo_ok)
  moreover have "length (frame_and zero_validity diff_validity) = length df"
    using assms(4,5) by simp
  moreover have "(frame_and zero_validity diff_validity ! t) g =
                   ((zero_validity ! t) g \<and> (diff_validity ! t) g)"
    using assms(3,4,5) by simp
  ultimately show ?thesis by simp
qed

theorem fused_validity_is_conjunction_witness:
  "\<exists>m. valid_combo (replicate 60 (row3 (Fin 0) (Fin 1) (Fin 1))) 24 (Fin (3 / 10)) (Fin (1 / 2)) 1
          = Inr m \<and>
       length m = 60 \<and>
       (m ! 30) G1 =
         ((validity_from_zeros (rolling_mean_frame (replicate 60 (row3 (Fin 0) (Fin 1) (Fin 1))) 60)
             (Fin (1 / 2)) ! 30) G1 \<and>
          (validity_from_relative_diff
             (rolling_mean_frame (replicate 60 (row3 (Fin 0) (Fin 1) (Fin 1))) 1440)
             (Fin (3 / 10)) (Fin (1 / 48)) ! 30) G1) \<and>
       \<not> (m ! 30) G1"
proof -
  let ?df = "replicate 60 (row3 (Fin 0) (Fin 1) (Fin (1::real)))"
  have pos: "(0::int) < 24" "(0::int) < 1" and l: "30 < length ?df" by simp_all
  from fused_validity_is_conjunction
         [OF pos l refl refl, where min_R = "Fin (1 / 2)" and mx = "Fin (3 / 10)" and g = G1]
  obtain m where
    m: "valid_combo ?df 24 (Fin (3 / 10)) (Fin (1 / 2)) 1 = Inr m" "length m = 60"
      "(m ! 30) G1 =
         ((validity_from_zeros (rolling_mean_frame ?df 60) (Fin (1 / 2)) ! 30) G1 \<and>
          (validity_from_relative_diff (rolling_mean_frame ?df 1440) (Fin (3 / 10))
             (Fin (1 / 48)) ! 30) G1)"
      "\<not> (validity_from_zeros (rolling_mean_frame ?df 60) (Fin (1 / 2)) ! 30) G1 \<or>
       \<not> (validity_from_relative_diff (rolling_mean_frame ?df 1440) (Fin (3 / 10))
            (Fin (1 / 48)) ! 30) G1 \<longrightarrow> \<not> (m ! 30) G1"
    by auto
  from m(4) constant_frame_zero_validity have "\<not> (m ! 30) G1" by blast
  with m(1,2,3) show ?thesis by blast
qed

text \<open>
  Claim C1, as stated: the combined series is at every index entry the arithmetic mean
  of the raw values of the gauges whose fused validity is true. It fails where a gauge
  that counts as valid has no raw value: on the one-row frame \<open>(2.0, 2.2, NaN)\<close> the
  three gauges are valid, the arithmetic mean of the three values is NaN, and
  \<open>combine_gauges\<close> returns 2.1, since the mean of a row skips the NaN.
\<close>

theorem combine_gauges_counterexample:
  "valid_combo [row3 (Fin 2) (Fin (11 / 5)) NaN] 24 (Fin (3 / 10)) (Fin (1 / 2)) 1 =
     Inr [row3 True True True] \<and>
   combine_gauges [row3 (Fin 2) (Fin (11 / 5)) NaN] 24 (Fin (3 / 10)) (Fin (1 / 2)) 1 =
     Inr [Fin (21 / 10)] \<and>
   spec_combined_series [row3 (Fin 2) (Fin (11 / 5)) NaN] [row3 True True True] = [NaN]"
  by (simp add: valid_combo_single_row combine_gauges_single_row nanmean_def gauge_ids_def
      fl_sum_def spec_combined_series_def arithmetic_mean_def)

text \<open>
  Claim C1, amended. For positive averaging hours, the combined series is at every
  index entry \<open>t\<close> the arithmetic mean of the raw (unrolled) values of the gauges whose
  fused validity is true at \<open>t\<close> and whose raw value at \<open>t\<close> is not NaN, and NaN where
  there is no such gauge, so where no gauge is valid. For the raw values
  \<open>(2.0, 2.2, NaN)\<close> with the gauges 1 and 2 valid the result is 2.1.
\<close>

theorem combine_gauges_mean_of_valid_present:
  assumes "0 < h_diff" and "0 < h_zeros" and "t < length df"
  shows "\<exists>df_valid_combo res.
           valid_combo df h_diff mx min_R h_zeros = Inr df_valid_combo \<and>
           combine_gauges df h_diff mx min_R h_zeros = Inr res \<and>
           length res = length df \<and>
           res ! t = arithmetic_mean
                       (map (df ! t)
                          (filter (\<lambda>g. (df_valid_combo ! t) g \<and> (df ! t) g \<noteq> NaN) gauge_ids)) \<and>
           ((\<forall>g. \<not> (df_valid_combo ! t) g) \<longrightarrow> res ! t = NaN) \<and>
           ((df ! t) G1 = Fin 2 \<and> (df ! t) G2 = Fin 2.2 \<and> (df ! t) G3 = NaN \<and>
            (df_valid_combo ! t) G1 \<and> (df_valid_combo ! t) G2 \<longrightarrow> res ! t = Fin 2.1)"
proof -
  obtain m where m: "valid_combo df h_diff mx min_R h_zeros = Inr m"
    using assms(1,2) valid_combo_Inr_iff [of df h_diff mx min_R h_zeros] by blast
  from combine_gauges_at [OF m assms(3)] obtain res where
    res: "combine_gauges df h_diff mx min_R h_zeros = Inr res" "length res = length df"
      "res ! t = arithmetic_mean
                   (map (df ! t) (filter (\<lambda>g. (m ! t) g \<and> (df ! t) g \<noteq> NaN) gauge_ids))"
    by blast
  have none: "(\<forall>g. \<not> (m ! t) g) \<longrightarrow> res ! t = NaN"
    by (simp add: res(3) arithmetic_mean_def)
  have ex: "(df ! t) G1 = Fin 2 \<and> (df ! t) G2 = Fin 2.2 \<and> (df ! t) G3 = NaN \<and>
            (m ! t) G1 \<and> (m ! t) G2 \<longrightarrow> res ! t = Fin 2.1"
    by (simp add: res(3) arithmetic_mean_def gauge_ids_def fl_sum_def)
  from m res none ex show ?thesis by blast
qed

theorem combine_gauges_mean_of_valid_present_witness:
  "(\<exists>res. combine_gauges (replicate 60 (row3 (Fin 0) (Fin 1) (Fin 1))) 24 (Fin (3 / 10))
            (Fin (1 / 2)) 1 = Inr res \<and>
          length res = 60 \<and> res ! 30 = Fin 1) \<and>
   (\<exists>res. combine_gauges [row3 (Fin 2) (Fin (11 / 5)) NaN] 24 (Fin (3 / 10)) (Fin (1 / 2)) 1
            = Inr res \<and>
          res ! 0 = Fin (21 / 10))"
proof -
  let ?df = "replicate 60 (row3 (Fin 0) (Fin 1) (Fin (1::real)))"
  let ?one = "[row3 (Fin 2) (Fin (11 / 5)) NaN]"
  have pos: "(0::int) < 24" "(0::int) < 1" and l: "30 < length ?df" and l1: "0 < length ?one"
    by simp_all
  from combine_gauges_mean_of_valid_present
         [OF pos l, where mx = "Fin (3 / 10)" and min_R = "Fin (1 / 2)"]
  obtain m res where
    m: "valid_combo ?df 24 (Fin (3 / 10)) (Fin (1 / 2)) 1 = Inr m" and
    res: "combine_gauges ?df 24 (Fin (3 / 10)) (Fin (1 / 2)) 1 = Inr res" "length res = length ?df"
      "res ! 30 = arithmetic_mean
                    (map (?df ! 30) (filter (\<lambda>g. (m ! 30) g \<and> (?df ! 30) g \<noteq> NaN) gauge_ids))"
    by blast
  from constant_frame_mask [OF m] have "res ! 30 = Fin 1"
    by (simp add: res(3) gauge_ids_def arithmetic_mean_def fl_sum_def)
  with res have a: "\<exists>res. combine_gauges ?df 24 (Fin (3 / 10)) (Fin (1 / 2)) 1 = Inr res \<and>
                         length res = 60 \<and> res ! 30 = Fin 1"
    by simp
  from combine_gauges_mean_of_valid_present
         [OF pos l1, where mx = "Fin (3 / 10)" and min_R = "Fin (1 / 2)"]
  obtain m1 res1 where
    m1: "valid_combo ?one 24 (Fin (3 / 10)) (Fin (1 / 2)) 1 = Inr m1" and
    res1: "combine_gauges ?one 24 (Fin (3 / 10)) (Fin (1 / 2)) 1 = Inr res1" and
    ex: "(?one ! 0) G1 = Fin 2 \<and> (?one ! 0) G2 = Fin 2.2 \<and> (?one ! 0) G3 = NaN \<and>
         (m1 ! 0) G1 \<and> (m1 ! 0) G2 \<longrightarrow> res1 ! 0 = Fin 2.1"
    by blast
  from m1 have "m1 = [row3 True True True]"
    by (simp add: valid_combo_single_row)
  with ex have "res1 ! 0 = Fin (21 / 10)" by simp
  with res1 have b: "\<exists>res. combine_gauges ?one 24 (Fin (3 / 10)) (Fin (1 / 2)) 1 = Inr res \<and>
                          res ! 0 = Fin (21 / 10)"
    by simp
  from a b show ?thesis by blast
qed

text \<open>
  Claim C10, as stated: where the centred windows are incomplete, \<open>combine_gauges\<close>
  returns the plain arithmetic mean of the three raw readings. It fails where a reading
  is missing: on the one-row frame \<open>(3, NaN, 5)\<close> the plain mean of the three readings
  is NaN and \<open>combine_gauges\<close> returns 4.
\<close>

theorem edge_mean_counterexample:
  "window_incomplete 24 (length [row3 (Fin 3) NaN (Fin 5)]) 0 \<and>
   window_incomplete 1 (length [row3 (Fin 3) NaN (Fin 5)]) 0 \<and>
   combine_gauges [row3 (Fin 3) NaN (Fin 5)] 24 (Fin (3 / 10)) (Fin (1 / 2)) 1 = Inr [Fin 4] \<and>
   arithmetic_mean (map ([row3 (Fin 3) NaN (Fin 5)] ! 0) gauge_ids) = NaN"
  by (simp add: window_incomplete_def combine_gauges_single_row nanmean_def gauge_ids_def
      fl_sum_def arithmetic_mean_def)

text \<open>
  Claim C10, amended. For positive averaging hours and every index entry \<open>t\<close> at which
  neither centred window of \<open>60 * hours\<close> entries is complete: the rolled means at \<open>t\<close>
  are NaN, \<open>validity_from_zeros\<close> and \<open>validity_from_relative_diff\<close> mark the three
  gauges valid at \<open>t\<close>, and \<open>combine_gauges\<close> returns at \<open>t\<close> the arithmetic mean of
  the raw readings that are not NaN: the plain mean of the three readings when none of
  them is NaN.
\<close>

theorem edge_timestamps:
  assumes "t < length df" and "0 < h_diff" and "0 < h_zeros"
    and "window_incomplete h_diff (length df) t" and "window_incomplete h_zeros (length df) t"
  shows "(\<forall>g. (rolling_mean_frame df (nat (60 * h_diff)) ! t) g = NaN \<and>
              (rolling_mean_frame df (nat (60 * h_zeros)) ! t) g = NaN \<and>
              (validity_from_zeros (rolling_mean_frame df (nat (60 * h_zeros))) floor_zeros ! t) g \<and>
              (validity_from_relative_diff (rolling_mean_frame df (nat (60 * h_diff))) mx
                 floor_diff ! t) g) \<and>
         (\<exists>res. combine_gauges df h_diff mx min_R h_zeros = Inr res \<and>
                res ! t = arithmetic_mean (filter (\<lambda>v. v \<noteq> NaN) (map (df ! t) gauge_ids)) \<and>
                ((\<forall>g. (df ! t) g \<noteq> NaN) \<longrightarrow> res ! t = arithmetic_mean (map (df ! t) gauge_ids)))"
proof -
  have rd: "(rolling_mean_frame df (nat (60 * h_diff)) ! t) g = NaN" for g
    using assms by (simp add: edge_rolled_NaN)
  have rz: "(rolling_mean_frame df (nat (60 * h_zeros)) ! t) g = NaN" for g
    using assms by (simp add: edge_rolled_NaN)
  have z: "(validity_from_zeros (rolling_mean_frame df (nat (60 * h_zeros))) m ! t) g" for m g
    using assms(1) rz by (intro rolled_NaN_valid_zeros) simp_all
  have d: "(validity_from_relative_diff (rolling_mean_frame df (nat (60 * h_diff))) mx m ! t) g"
    for m g
    using assms(1) rd by (intro rolled_NaN_valid_diff) simp_all
  obtain m where m: "valid_combo df h_diff mx min_R h_zeros = Inr m"
    using assms(2,3) valid_combo_Inr_iff [of df h_diff mx min_R h_zeros] by blast
  have "m = frame_and
              (validity_from_zeros (rolling_mean_frame df (nat (60 * h_zeros)))
                 (fl_div min_R (Fin (of_int h_zeros))))
              (validity_from_relative_diff (rolling_mean_frame df (nat (60 * h_diff))) mx
                 (fl_div min_R (Fin (of_int h_diff))))"
    using m by (simp add: valid_combo_ok [OF assms(2,3)])
  then have all: "(m ! t) g" for g
    using assms(1) by (simp add: z d)
  from combine_gauges_at [OF m assms(1)] obtain res where
    res: "combine_gauges df h_diff mx min_R h_zeros = Inr res"
      "res ! t = arithmetic_mean
                   (map (df ! t) (filter (\<lambda>g. (m ! t) g \<and> (df ! t) g \<noteq> NaN) gauge_ids))"
    by blast
  have r1: "res ! t = arithmetic_mean (filter (\<lambda>v. v \<noteq> NaN) (map (df ! t) gauge_ids))"
    by (simp add: res(2) all filter_map comp_def)
  then have r2: "(\<forall>g. (df ! t) g \<noteq> NaN) \<longrightarrow> res ! t = arithmetic_mean (map (df ! t) gauge_ids)"
    by simp
  from rd rz z d res(1) r1 r2 show ?thesis by blast
qed

theorem edge_timestamps_witness:
  "\<exists>res. combine_gauges (replicate 60 (row3 (Fin 0) (Fin 1) (Fin 1))) 24 (Fin (3 / 10))
            (Fin (1 / 2)) 1 = Inr res \<and>
         res ! 5 = Fin (2 / 3) \<and>
         (\<forall>g. (validity_from_zeros (rolling_mean_frame (replicate 60 (row3 (Fin 0) (Fin 1) (Fin 1))) 60)
                  (Fin (1 / 2)) ! 5) g)"
proof -
  let ?df = "replicate 60 (row3 (Fin 0) (Fin 1) (Fin (1::real)))"
  have pos: "(0::int) < 24" "(0::int) < 1" and l: "5 < length ?df" by simp_all
  have e: "window_incomplete 24 (length ?df) 5" "window_incomplete 1 (length ?df) 5"
    by (simp_all add: window_incomplete_def)
  from edge_timestamps
         [OF l pos e, where floor_zeros = "Fin (1 / 2)" and mx = "Fin (3 / 10)" and
            floor_diff = "Fin (1 / 48)" and min_R = "Fin (1 / 2)"]
  obtain res where
    z: "\<forall>g. (validity_from_zeros (rolling_mean_frame ?df 60) (Fin (1 / 2)) ! 5) g" and
    res: "combine_gauges ?df 24 (Fin (3 / 10)) (Fin (1 / 2)) 1 = Inr res"
      "(\<forall>g. (?df ! 5) g \<noteq> NaN) \<longrightarrow> res ! 5 = arithmetic_mean (map (?df ! 5) gauge_ids)"
    by auto
  have "\<forall>g. (?df ! 5) g \<noteq> NaN"
    by (simp add: row3_def split: gauge.split)
  with res(2) have "res ! 5 = arithmetic_mean (map (?df ! 5) gauge_ids)" by blast
  then have "res ! 5 = Fin (2 / 3)"
    by (simp add: gauge_ids_def arithmetic_mean_def fl_sum_def)
  with z res(1) show ?thesis by blast
qed

section \<open>The WMO correction\<close>




end
